theory Spec2Isabelle
  imports Complex_Main
begin

section \<open>Values, errors and outcomes\<close>

text \<open>
  The wind plant of \<^verbatim>\<open>hopp/simulation/technologies/wind/wind_plant.py\<close> is a
  configuration layer over an external simulation engine. Python floats are modelled as
  reals (exact arithmetic), Python ints as integers, sequences as lists.

  The messages of the source are format strings; a message is the list of its literal
  pieces and of the values embedded between them, in order.
\<close>

datatype fragment = Txt string | Num real | Count int | Name string

type_synonym message = "fragment list"

text \<open>
  An UnboundLocalError carries the name of the local variable, a TypeError the name of the
  attribute that was called though it is not callable. An exception raised inside an
  \<^verbatim>\<open>except\<close> block, with no \<^verbatim>\<open>from\<close>, carries the exception being handled as its
  \<^verbatim>\<open>__context__\<close>: \<open>WithContext e c\<close> is the exception \<open>e\<close> with the context \<open>c\<close>.
\<close>

datatype error =
    ValueError message
  | RuntimeError message
  | NotImplementedError
  | UnboundLocalError string
  | TypeError string
  | ZeroDivisionError
  | EngineError string
  | WithContext error error

text \<open>
  A method of the plant mutates the plant and either returns or raises. The plant after
  the call is part of the result in both cases: what was written before an exception
  stays written.
\<close>

datatype outcome = Returned | Raised error

definition and_then ::
  "('s \<Rightarrow> outcome \<times> 's) \<Rightarrow> ('s \<Rightarrow> outcome \<times> 's) \<Rightarrow> 's \<Rightarrow> outcome \<times> 's" where
  "and_then f g s =
     (case f s of
        (Returned, s1) \<Rightarrow> g s1
      | (Raised e, s1) \<Rightarrow> (Raised e, s1))"

text \<open>Python's \<^verbatim>\<open>max\<close> and \<open>min\<close> of a sequence raise ValueError on an empty one.\<close>

fun py_max :: "real list \<Rightarrow> error + real" where
  "py_max [] = Inl (ValueError [Txt ''max() arg is an empty sequence''])"
| "py_max (x # xs) = Inr (fold max xs x)"

fun py_min :: "real list \<Rightarrow> error + real" where
  "py_min [] = Inl (ValueError [Txt ''min() arg is an empty sequence''])"
| "py_min (x # xs) = Inr (fold min xs x)"

text \<open>\<^verbatim>\<open>int(x)\<close> of a float truncates towards zero.\<close>

definition py_int :: "real \<Rightarrow> int" where
  "py_int x = (if 0 \<le> x then \<lfloor>x\<rfloor> else \<lceil>x\<rceil>)"

text \<open>Rounding to the nearest integer, ties going to the even one.\<close>

definition rint :: "real \<Rightarrow> int" where
  "rint x =
     (let f = \<lfloor>x\<rfloor>; d = x - of_int f
      in if d < 1 / 2 then f
         else if 1 / 2 < d then f + 1
         else if even f then f else f + 1)"

section \<open>The data of a wind plant\<close>

text \<open>
  The resource data object of the site: geographic coordinates, the year, the hub height
  the data was retrieved for, and the data dictionary with its measurement heights and
  its time series.
\<close>

record resource_data =
  heights :: "real list"
  series :: "real list list"

record wind_resource =
  latitude :: real
  longitude :: real
  year :: int
  hub_height_meters :: real
  data :: resource_data

record site_info =
  hub_height :: real
  elev :: "real option"
  wind_resource :: wind_resource

text \<open>The fields of \<^verbatim>\<open>WindConfig\<close> that \<^verbatim>\<open>WindPlant\<close> reads; \<open>None\<close> is Python's None.\<close>

record wind_config =
  cfg_num_turbines :: int
  cfg_turbine_rating_kw :: "real option"
  cfg_rotor_diameter :: "real option"
  cfg_hub_height :: "real option"
  cfg_turbine_name :: "string option"
  cfg_turbine_group :: string
  cfg_layout_mode :: string
  cfg_model_name :: string
  cfg_adjust_air_density_for_elevation :: bool

text \<open>
  The system model is the engine's parameter store, read and written through
  \<^verbatim>\<open>value(key)\<close> and \<^verbatim>\<open>value(key, v)\<close>, through attributes of its groups
  (\<^verbatim>\<open>Turbine.wind_turbine_hub_ht\<close>) and through \<^verbatim>\<open>assign\<close>. It is a record with one
  field for each key the source uses, named as the key. An accessor call is a read or an
  update of the field. Two engine calls whose failure the source handles can raise in
  the model: the write in the wake-model setter and the recalculation in
  \<^verbatim>\<open>modify_powercurve\<close>.
\<close>

record engine_model =
  wind_farm_wake_model :: int
  wind_farm_xCoordinates :: "real list"
  wind_farm_yCoordinates :: "real list"
  wind_turbine_powercurve_windspeeds :: "real list"
  wind_turbine_powercurve_powerout :: "real list"
  wind_turbine_rotor_diameter :: real
  wind_turbine_hub_ht :: real
  system_capacity :: real
  wind_resource_data :: resource_data
  turb_specific_loss :: real

text \<open>
  The layout object \<^verbatim>\<open>_layout\<close>: its mode and, for a custom layout, the coordinate
  lists of its parameters.
\<close>

record wind_layout =
  layout_mode :: string
  layout_x :: "real list"
  layout_y :: "real list"

record wind_plant =
  site :: site_info
  config :: wind_config
  system_model :: engine_model
  layout :: wind_layout

text \<open>
  The dictionary \<^verbatim>\<open>get_pysam_turbine_specs\<close> returns. The source reads its rotor
  diameter and its power output by key and hands the whole dictionary to
  \<^verbatim>\<open>Turbine.assign\<close>, which stores every entry present.
\<close>

record turbine_dict =
  td_rotor_diameter :: real
  td_powercurve_powerout :: "real list"
  td_powercurve_windspeeds :: "real list option"
  td_hub_ht :: "real option"

definition Turbine_assign :: "turbine_dict \<Rightarrow> engine_model \<Rightarrow> engine_model" where
  "Turbine_assign d m =
     (let m1 = m\<lparr>wind_turbine_rotor_diameter := td_rotor_diameter d,
                  wind_turbine_powercurve_powerout := td_powercurve_powerout d\<rparr>;
          m2 = (case td_powercurve_windspeeds d of
                  None \<Rightarrow> m1
                | Some ws \<Rightarrow> m1\<lparr>wind_turbine_powercurve_windspeeds := ws\<rparr>)
      in case td_hub_ht d of
           None \<Rightarrow> m2
         | Some h \<Rightarrow> m2\<lparr>wind_turbine_hub_ht := h\<rparr>)"

text \<open>The arguments of the engine's power-curve recalculation, in call order.\<close>

record powercurve_call =
  pc_rating_kw :: real
  pc_rotor_diameter :: int
  pc_elevation :: real
  pc_max_cp :: real
  pc_max_tip_speed :: real
  pc_max_tip_speed_ratio :: real
  pc_cut_in_speed :: real
  pc_cut_out_speed :: real
  pc_drive_train :: int

text \<open>The request \<^verbatim>\<open>{"lat": .., "lon": .., "year": ..}\<close> for new resource data.\<close>

record resource_request =
  req_lat :: real
  req_lon :: real
  req_year :: int

text \<open>
  The collaborators whose code is outside \<^verbatim>\<open>wind_plant.py\<close> are parameters of the
  model:
  \<^item> \<open>wake_model_value_raises\<close>: whether the engine's \<^verbatim>\<open>value("wind_farm_wake_model", v)\<close>
    raises, and what;
  \<^item> \<open>calculate_powercurve\<close>: the engine's \<^verbatim>\<open>Turbine.calculate_powercurve\<close>;
  \<^item> \<open>set_num_turbines\<close>: \<^verbatim>\<open>WindLayout.set_num_turbines\<close>, which may rewrite the layout
    and the coordinates in the system model;
  \<^item> \<open>check_turbine_library_for_turbine\<close> and \<open>get_pysam_turbine_specs\<close>: the turbine
    library;
  \<^item> \<open>initialize_wind_resource\<close>: \<^verbatim>\<open>SiteInfo.initialize_wind_resource\<close>;
  \<^item> \<open>calculate_air_density_losses\<close>;
  \<^item> \<open>np_round\<close>: numpy's \<^verbatim>\<open>np.round(x, decimals = d)\<close>, which rounds in floating
    point and gives a numpy float64;
  \<^item> \<open>float64_rating_on_zero_maximum\<close>: what the turbine-rating setter leaves when it is
    handed a numpy float64 and the maximum of the power curve is zero. The division of
    a float64 by zero does not raise as Python's does; it gives a value that is not
    finite, which the reals of the model do not have.
\<close>

record collaborators =
  wake_model_value_raises :: "int \<Rightarrow> engine_model \<Rightarrow> error option"
  calculate_powercurve :: "powercurve_call \<Rightarrow> engine_model \<Rightarrow> outcome \<times> engine_model"
  set_num_turbines :: "int \<Rightarrow> wind_plant \<Rightarrow> outcome \<times> wind_plant"
  check_turbine_library_for_turbine :: "string \<Rightarrow> string \<Rightarrow> bool"
  get_pysam_turbine_specs :: "string \<Rightarrow> wind_plant \<Rightarrow> error + turbine_dict"
  initialize_wind_resource :: "resource_request \<Rightarrow> site_info \<Rightarrow> error + wind_resource"
  calculate_air_density_losses :: "real \<Rightarrow> real"
  np_round :: "real \<Rightarrow> nat \<Rightarrow> real"
  float64_rating_on_zero_maximum :: "real \<Rightarrow> wind_plant \<Rightarrow> outcome \<times> wind_plant"

section \<open>The properties and methods of \<^verbatim>\<open>WindPlant\<close>\<close>

subsection \<open>Wake model\<close>

text \<open>
  The getter: the ValueError for an unrecognised type is raised inside the \<^verbatim>\<open>try\<close>,
  and the bare \<^verbatim>\<open>except\<close> raises NotImplementedError while handling it.
\<close>

definition wake_model :: "wind_plant \<Rightarrow> error + string" where
  "wake_model p =
     (let model_type = wind_farm_wake_model (system_model p)
      in if model_type = 0 then Inr ''0 [Simple]''
         else if model_type = 1 then Inr ''1 [Park (WAsP)]''
         else if model_type = 2 then Inr ''2 [Eddy Viscosity]''
         else if model_type = 3 then Inr ''3 [Constant %]''
         else Inl (WithContext NotImplementedError
                     (ValueError [Txt ''wake model type unrecognized''])))"

text \<open>
  The setter writes only under the guard \<^verbatim>\<open>0 <= model_type < 4\<close>; the guard has no
  \<^verbatim>\<open>else\<close>. When the engine refuses the write, the bare \<^verbatim>\<open>except\<close> raises
  NotImplementedError while handling the engine's exception.
\<close>

definition wake_model_setter ::
  "collaborators \<Rightarrow> int \<Rightarrow> wind_plant \<Rightarrow> outcome \<times> wind_plant" where
  "wake_model_setter env model_type p =
     (if 0 \<le> model_type \<and> model_type < 4 then
        (case wake_model_value_raises env model_type (system_model p) of
           Some e \<Rightarrow> (Raised (WithContext NotImplementedError e), p)
         | None \<Rightarrow>
             (Returned, p\<lparr>system_model := (system_model p)\<lparr>wind_farm_wake_model := model_type\<rparr>\<rparr>))
      else (Returned, p))"

subsection \<open>Number of turbines and rotor diameter\<close>

definition num_turbines :: "wind_plant \<Rightarrow> int" where
  "num_turbines p = int (length (wind_farm_xCoordinates (system_model p)))"

definition num_turbines_message :: "int \<Rightarrow> int \<Rightarrow> message" where
  "num_turbines_message n_turbines n_turbs_layout =
     [Txt ''Using custom wind farm layout and input number of turbines ('', Count n_turbines,
      Txt '') does not equal length of layout ('', Count n_turbs_layout,
      Txt ''). Please either update num_turbines in the hopp config to '', Count n_turbs_layout,
      Txt '' Or change the layout to include '', Count n_turbines,
      Txt '' unique turbine positions.'']"

text \<open>
  The setter. For a custom layout the ValueError sits under two tests: the count differs
  from the length of the layout parameters' \<^verbatim>\<open>layout_x\<close>, and it differs from the
  length of the system model's \<^verbatim>\<open>wind_farm_xCoordinates\<close>. When the count equals the
  length of \<^verbatim>\<open>layout_x\<close> the layout is set in the branch and again by the last line.
\<close>

definition num_turbines_setter ::
  "collaborators \<Rightarrow> int \<Rightarrow> wind_plant \<Rightarrow> outcome \<times> wind_plant" where
  "num_turbines_setter env n_turbines p =
     (if layout_mode (layout p) = ''custom'' then
        (if n_turbines = int (length (layout_x (layout p))) then
           and_then (set_num_turbines env n_turbines) (set_num_turbines env n_turbines) p
         else if n_turbines \<noteq> int (length (wind_farm_xCoordinates (system_model p))) then
           (Raised (ValueError (num_turbines_message n_turbines
              (int (length (wind_farm_xCoordinates (system_model p)))))), p)
         else set_num_turbines env n_turbines p)
      else set_num_turbines env n_turbines p)"

definition rotor_diameter :: "wind_plant \<Rightarrow> real" where
  "rotor_diameter p = wind_turbine_rotor_diameter (system_model p)"

definition rotor_diameter_setter ::
  "collaborators \<Rightarrow> real \<Rightarrow> wind_plant \<Rightarrow> outcome \<times> wind_plant" where
  "rotor_diameter_setter env d p =
     (let p1 = p\<lparr>system_model := (system_model p)\<lparr>wind_turbine_rotor_diameter := d\<rparr>\<rparr>
      in num_turbines_setter env (num_turbines p1) p1)"

subsection \<open>Turbine rating\<close>

definition turb_rating :: "wind_plant \<Rightarrow> error + real" where
  "turb_rating p = py_max (wind_turbine_powercurve_powerout (system_model p))"

text \<open>
  The setter scales the power curve by \<^verbatim>\<open>rating_kw / self.turb_rating\<close>, then reads
  the rating again, from the scaled curve, for the system capacity. The division is
  Python's: it raises on a zero divisor.
\<close>

definition turb_rating_setter :: "real \<Rightarrow> wind_plant \<Rightarrow> outcome \<times> wind_plant" where
  "turb_rating_setter rating_kw p =
     (case turb_rating p of
        Inl e \<Rightarrow> (Raised e, p)
      | Inr r \<Rightarrow>
          (if r = 0 then (Raised ZeroDivisionError, p)
           else
             (let scaling = rating_kw / r;
                  p1 = p\<lparr>system_model := (system_model p)
                         \<lparr>wind_turbine_powercurve_powerout :=
                            map (\<lambda>i. i * scaling)
                              (wind_turbine_powercurve_powerout (system_model p))\<rparr>\<rparr>
              in (case turb_rating p1 of
                    Inl e \<Rightarrow> (Raised e, p1)
                  | Inr r1 \<Rightarrow>
                      (Returned, p1\<lparr>system_model := (system_model p1)
                         \<lparr>system_capacity :=
                            r1 * real (length (wind_farm_xCoordinates (system_model p1)))\<rparr>\<rparr>)))))"

subsection \<open>Recalculating the power curve\<close>

definition powercurve_message :: "real \<Rightarrow> real \<Rightarrow> message" where
  "powercurve_message rotor_diam rating_kw =
     [Txt ''WindPlant.turb_rating could not calculate turbine powercurve with diameter='',
      Num rotor_diam, Txt '', rating='', Num rating_kw,
      Txt (''. Check diameter or turn off '' @ [CHR 0x27] @ ''recalculate_powercurve''
           @ [CHR 0x27])]"

text \<open>
  The engine is called with the rating, the integer part of the rotor diameter now
  stored and the default constants of the method. The bare \<^verbatim>\<open>except\<close> raises the
  RuntimeError, whose message is formatted from the two arguments of the method, while
  handling whatever the engine raised: there is no \<^verbatim>\<open>from None\<close>, so the engine's
  exception stays attached to the RuntimeError as its context.
\<close>

definition powercurve_arguments :: "real \<Rightarrow> wind_plant \<Rightarrow> powercurve_call" where
  "powercurve_arguments rating_kw p =
     \<lparr>pc_rating_kw = rating_kw,
      pc_rotor_diameter = py_int (wind_turbine_rotor_diameter (system_model p)),
      pc_elevation = 0,
      pc_max_cp = 45 / 100,
      pc_max_tip_speed = 60,
      pc_max_tip_speed_ratio = 8,
      pc_cut_in_speed = 4,
      pc_cut_out_speed = 25,
      pc_drive_train = 0\<rparr>"

definition modify_powercurve ::
  "collaborators \<Rightarrow> real \<Rightarrow> real \<Rightarrow> wind_plant \<Rightarrow> outcome \<times> wind_plant" where
  "modify_powercurve env rotor_diam rating_kw p =
     (case calculate_powercurve env (powercurve_arguments rating_kw p) (system_model p) of
        (Raised e, m1) \<Rightarrow>
          (Raised (WithContext (RuntimeError (powercurve_message rotor_diam rating_kw)) e),
           p\<lparr>system_model := m1\<rparr>)
      | (Returned, m1) \<Rightarrow>
          (let p1 = p\<lparr>system_model := m1\<lparr>wind_turbine_rotor_diameter := rotor_diam\<rparr>\<rparr>
           in (Returned, p1\<lparr>system_model := (system_model p1)
                 \<lparr>system_capacity := rating_kw * of_int (num_turbines p1)\<rparr>\<rparr>)))"

subsection \<open>Turbine coordinates\<close>

definition system_capacity_kw :: "wind_plant \<Rightarrow> real" where
  "system_capacity_kw p = system_capacity (system_model p)"

text \<open>
  The attribute \<^verbatim>\<open>wind_farm_layout\<close> of the Floris system model is the pair of the
  coordinate lists: line 166 unpacks it as \<^verbatim>\<open>x_coords, y_coords\<close>. Line 419 calls it
  with the new coordinates, and calling a pair raises TypeError; nothing is written.
\<close>

definition modify_coordinates ::
  "real list \<Rightarrow> real list \<Rightarrow> wind_plant \<Rightarrow> outcome \<times> wind_plant" where
  "modify_coordinates xcoords ycoords p =
     (if length xcoords \<noteq> length ycoords then
        (Raised (ValueError [Txt ''WindPlant turbine coordinate arrays must have same length'']), p)
      else if cfg_model_name (config p) = ''floris'' then
        (Raised (TypeError ''wind_farm_layout''), p)
      else
        (let p1 = p\<lparr>system_model := (system_model p)\<lparr>wind_farm_xCoordinates := xcoords\<rparr>\<rparr>;
             p2 = p1\<lparr>system_model := (system_model p1)\<lparr>wind_farm_yCoordinates := ycoords\<rparr>\<rparr>
         in case turb_rating p2 of
              Inl e \<Rightarrow> (Raised e, p2)
            | Inr r \<Rightarrow>
                (Returned, p2\<lparr>system_model := (system_model p2)
                   \<lparr>system_capacity := r * real (length xcoords)\<rparr>\<rparr>)))"

subsection \<open>Initialising the turbine of the PySAM model\<close>

definition turbine_name_message :: "string \<Rightarrow> message" where
  "turbine_name_message name =
     [Txt ''Turbine name '', Name name,
      Txt '' was not found the turbine-models library. Please try an available name.'']"

definition rotor_diameter_message :: "real \<Rightarrow> real \<Rightarrow> message" where
  "rotor_diameter_message cfg_d turbine_d =
     [Txt ''Input rotor diameter ('', Num cfg_d,
      Txt '') does not match does not match rotor diameter for turbine ('', Num turbine_d,
      Txt '').Please correct the value for rotor_diameter in the hopp config input to '',
      Num turbine_d, Txt ''.'']"

definition hub_height_message :: "real \<Rightarrow> real \<Rightarrow> message" where
  "hub_height_message cfg_h turbine_h =
     [Txt ''Input hub-height ('', Num cfg_h,
      Txt '') does not match hub-height for turbine ('', Num turbine_h,
      Txt ''). Please correct the value for hub_height in the hopp config input to '',
      Num turbine_h, Txt ''.'']"

text \<open>Lines 227 to 228: a configured rotor diameter goes through the setter.\<close>

definition configure_rotor_diameter ::
  "collaborators \<Rightarrow> wind_plant \<Rightarrow> outcome \<times> wind_plant" where
  "configure_rotor_diameter env p =
     (case cfg_rotor_diameter (config p) of
        None \<Rightarrow> (Returned, p)
      | Some d \<Rightarrow> rotor_diameter_setter env d p)"

text \<open>Lines 246 to 254: the configured rotor diameter against the turbine's.\<close>

definition check_rotor_diameter :: "wind_plant \<Rightarrow> outcome \<times> wind_plant" where
  "check_rotor_diameter p =
     (case cfg_rotor_diameter (config p) of
        None \<Rightarrow> (Returned, p)
      | Some d \<Rightarrow>
          if d \<noteq> wind_turbine_rotor_diameter (system_model p) then
            (Raised (ValueError
               (rotor_diameter_message d (wind_turbine_rotor_diameter (system_model p)))), p)
          else (Returned, p))"

text \<open>
  Lines 230 to 254. The local variable \<^verbatim>\<open>turbine_name\<close> is bound in the \<^verbatim>\<open>else\<close>
  branch only: \<open>None\<close> is the unbound variable. The branch for a name that is not valid
  prints the list of names and builds the message and the ValueError, with no
  \<^verbatim>\<open>raise\<close> before it; execution goes on to the read of \<^verbatim>\<open>turbine_name\<close>.

  Line 244 hands the turbine-rating setter the float64 that \<^verbatim>\<open>np.round\<close> gives; on a
  power curve whose maximum is zero the setter then divides a float64 by zero.
\<close>

definition configure_turbine ::
  "collaborators \<Rightarrow> wind_plant \<Rightarrow> outcome \<times> wind_plant" where
  "configure_turbine env p =
     (case cfg_turbine_name (config p) of
        None \<Rightarrow> (Returned, p)
      | Some name \<Rightarrow>
          (let valid_name =
                 check_turbine_library_for_turbine env name (cfg_turbine_group (config p));
               turbine_name = (if \<not> valid_name then None else Some name)
           in case turbine_name of
                None \<Rightarrow> (Raised (UnboundLocalError ''turbine_name''), p)
              | Some tn \<Rightarrow>
                  (case get_pysam_turbine_specs env tn p of
                     Inl e \<Rightarrow> (Raised e, p)
                   | Inr turbine_dict \<Rightarrow>
                       and_then (rotor_diameter_setter env (td_rotor_diameter turbine_dict))
                        (and_then
                          (\<lambda>p2. case py_max (td_powercurve_powerout turbine_dict) of
                                   Inl e \<Rightarrow> (Raised e, p2)
                                 | Inr m \<Rightarrow>
                                     (if turb_rating p2 = Inr 0 then
                                        float64_rating_on_zero_maximum env (np_round env m 3) p2
                                      else turb_rating_setter (np_round env m 3) p2))
                          check_rotor_diameter)
                        (p\<lparr>system_model := Turbine_assign turbine_dict (system_model p)\<rparr>))))"

text \<open>Lines 256 to 265: the configured hub height against the turbine's.\<close>

definition check_hub_height :: "wind_plant \<Rightarrow> outcome \<times> wind_plant" where
  "check_hub_height p =
     (case cfg_hub_height (config p) of
        None \<Rightarrow> (Returned, p)
      | Some h \<Rightarrow>
          if h \<noteq> wind_turbine_hub_ht (system_model p) then
            (Raised (ValueError (hub_height_message h (wind_turbine_hub_ht (system_model p)))), p)
          else (Returned, p))"

text \<open>Lines 270 to 271: the hub height is inside the measured heights.\<close>

definition update_hub_height :: "real \<Rightarrow> wind_plant \<Rightarrow> wind_plant" where
  "update_hub_height hub p =
     (let s1 = (site p)\<lparr>wind_resource := (wind_resource (site p))\<lparr>hub_height_meters := hub\<rparr>\<rparr>
      in p\<lparr>site := s1\<lparr>hub_height := hub\<rparr>\<rparr>)"

text \<open>
  Lines 274 to 283: the site takes the hub height, new resource data is requested for
  the latitude, longitude and year of the resource in place, the site takes the new
  resource, and the system model takes its data.
\<close>

definition redownload_wind_resource ::
  "collaborators \<Rightarrow> real \<Rightarrow> wind_plant \<Rightarrow> outcome \<times> wind_plant" where
  "redownload_wind_resource env hub p =
     (let s1 = (site p)\<lparr>hub_height := hub\<rparr>;
          request = \<lparr>req_lat = latitude (wind_resource s1),
                      req_lon = longitude (wind_resource s1),
                      req_year = year (wind_resource s1)\<rparr>
      in case initialize_wind_resource env request s1 of
           Inl e \<Rightarrow> (Raised e, p\<lparr>site := s1\<rparr>)
         | Inr wr \<Rightarrow>
             (let s2 = s1\<lparr>wind_resource := wr\<rparr>
              in (Returned,
                  p\<lparr>site := s2,
                    system_model := (system_model p)
                      \<lparr>wind_resource_data := data (wind_resource s2)\<rparr>\<rparr>)))"

text \<open>
  Lines 267 to 283. Python's \<^verbatim>\<open>and\<close> evaluates the maximum only when the hub height
  is at least the minimum.
\<close>

definition align_resource_height ::
  "collaborators \<Rightarrow> wind_plant \<Rightarrow> outcome \<times> wind_plant" where
  "align_resource_height env p =
     (let hub = wind_turbine_hub_ht (system_model p)
      in if hub \<noteq> hub_height_meters (wind_resource (site p)) then
           (case py_min (heights (data (wind_resource (site p)))) of
              Inl e \<Rightarrow> (Raised e, p)
            | Inr lo \<Rightarrow>
                if lo \<le> hub then
                  (case py_max (heights (data (wind_resource (site p)))) of
                     Inl e \<Rightarrow> (Raised e, p)
                   | Inr hi \<Rightarrow>
                       if hub \<le> hi then (Returned, update_hub_height hub p)
                       else redownload_wind_resource env hub p)
                else redownload_wind_resource env hub p)
         else (Returned, p))"

text \<open>Lines 285 to 287.\<close>

definition adjust_air_density ::
  "collaborators \<Rightarrow> wind_plant \<Rightarrow> outcome \<times> wind_plant" where
  "adjust_air_density env p =
     (if cfg_adjust_air_density_for_elevation (config p) then
        (case elev (site p) of
           None \<Rightarrow> (Returned, p)
         | Some h \<Rightarrow>
             (Returned, p\<lparr>system_model := (system_model p)
                \<lparr>turb_specific_loss := calculate_air_density_losses env h\<rparr>\<rparr>))
      else (Returned, p))"

definition turbine_setup :: "collaborators \<Rightarrow> wind_plant \<Rightarrow> outcome \<times> wind_plant" where
  "turbine_setup env =
     and_then (configure_rotor_diameter env) (and_then (configure_turbine env) check_hub_height)"

definition initialize_pysam_wind_turbine ::
  "collaborators \<Rightarrow> wind_plant \<Rightarrow> outcome \<times> wind_plant" where
  "initialize_pysam_wind_turbine env =
     and_then (turbine_setup env)
       (and_then (align_resource_height env) (adjust_air_density env))"

section \<open>A plant to run the model on\<close>

text \<open>
  A plant of three 250 kW turbines with a 40 m rotor at 50 m hub height, on resource data
  measured at 40 m and 60 m, and collaborators that succeed: the turbine library knows
  one turbine, the layout keeps the plant as it is.
\<close>

definition sample_resource :: wind_resource where
  "sample_resource =
     \<lparr>latitude = 39, longitude = -103, year = 2012, hub_height_meters = 50,
      data = \<lparr>heights = [40, 60], series = [[5, 6], [7, 8]]\<rparr>\<rparr>"

definition sample_model :: engine_model where
  "sample_model =
     \<lparr>wind_farm_wake_model = 0,
      wind_farm_xCoordinates = [0, 200, 400],
      wind_farm_yCoordinates = [0, 0, 0],
      wind_turbine_powercurve_windspeeds = [4, 9, 15],
      wind_turbine_powercurve_powerout = [0, 125, 250],
      wind_turbine_rotor_diameter = 40,
      wind_turbine_hub_ht = 50,
      system_capacity = 750,
      wind_resource_data = data sample_resource,
      turb_specific_loss = 0\<rparr>"

definition sample_config :: wind_config where
  "sample_config =
     \<lparr>cfg_num_turbines = 3,
      cfg_turbine_rating_kw = Some 250,
      cfg_rotor_diameter = None,
      cfg_hub_height = None,
      cfg_turbine_name = None,
      cfg_turbine_group = ''none'',
      cfg_layout_mode = ''custom'',
      cfg_model_name = ''pysam'',
      cfg_adjust_air_density_for_elevation = False\<rparr>"

definition sample_plant :: wind_plant where
  "sample_plant =
     \<lparr>site = \<lparr>hub_height = 50, elev = None, wind_resource = sample_resource\<rparr>,
      config = sample_config,
      system_model = sample_model,
      layout = \<lparr>layout_mode = ''custom'', layout_x = [0, 200, 400], layout_y = [0, 0, 0]\<rparr>\<rparr>"

definition sample_turbine :: turbine_dict where
  "sample_turbine =
     \<lparr>td_rotor_diameter = 40, td_powercurve_powerout = [0, 125, 250],
      td_powercurve_windspeeds = Some [4, 9, 15], td_hub_ht = Some 50\<rparr>"

definition sample_env :: collaborators where
  "sample_env =
     \<lparr>wake_model_value_raises = (\<lambda>v m. None),
      calculate_powercurve = (\<lambda>c m. (Returned, m)),
      set_num_turbines = (\<lambda>n p. (Returned, p)),
      check_turbine_library_for_turbine = (\<lambda>name group. name = ''sample-250''),
      get_pysam_turbine_specs = (\<lambda>name p. Inr sample_turbine),
      initialize_wind_resource =
        (\<lambda>r s. Inr \<lparr>latitude = req_lat r, longitude = req_lon r, year = req_year r,
                    hub_height_meters = hub_height s,
                    data = \<lparr>heights = [hub_height s], series = [[9, 9]]\<rparr>\<rparr>),
      calculate_air_density_losses = (\<lambda>h. h / 1000),
      np_round = (\<lambda>x d. of_int (rint (x * 10 ^ d)) / 10 ^ d),
      float64_rating_on_zero_maximum = (\<lambda>r p. (Returned, p))\<rparr>"

text \<open>Variations of the sample plant and of its collaborators.\<close>

definition unknown_turbine_plant :: wind_plant where
  "unknown_turbine_plant =
     sample_plant\<lparr>config := sample_config\<lparr>cfg_turbine_name := Some ''no-such-turbine''\<rparr>\<rparr>"

definition floris_plant :: wind_plant where
  "floris_plant = sample_plant\<lparr>config := sample_config\<lparr>cfg_model_name := ''floris''\<rparr>\<rparr>"

text \<open>
  The layout parameters hold two positions while the system model holds three, as after
  a call of \<^verbatim>\<open>modify_coordinates\<close> with three positions.
\<close>

definition moved_plant :: wind_plant where
  "moved_plant =
     sample_plant\<lparr>layout := \<lparr>layout_mode = ''custom'', layout_x = [0, 200], layout_y = [0, 0]\<rparr>\<rparr>"

text \<open>Turbines of 80 m and of 45 m hub height on the resource measured at 40 m and 60 m.\<close>

definition tall_plant :: wind_plant where
  "tall_plant = sample_plant\<lparr>system_model := sample_model\<lparr>wind_turbine_hub_ht := 80\<rparr>\<rparr>"

definition low_plant :: wind_plant where
  "low_plant = sample_plant\<lparr>system_model := sample_model\<lparr>wind_turbine_hub_ht := 45\<rparr>\<rparr>"

definition fetched_resource :: wind_resource where
  "fetched_resource =
     \<lparr>latitude = 39, longitude = -103, year = 2012, hub_height_meters = 80,
      data = \<lparr>heights = [80], series = [[9, 9]]\<rparr>\<rparr>"

definition failing_engine :: collaborators where
  "failing_engine =
     sample_env\<lparr>calculate_powercurve :=
       (\<lambda>c m. (Raised (EngineError ''rotor diameter too small for rating''), m))\<rparr>"

definition offline_env :: collaborators where
  "offline_env =
     sample_env\<lparr>initialize_wind_resource :=
       (\<lambda>r s. Inl (EngineError ''resource download failed''))\<rparr>"

section \<open>Properties of the wake-model setter\<close>

text \<open>
  C1, as the code has it: for every wake-model index outside the range 0 to 3, assigning
  it through the \<^verbatim>\<open>wake_model\<close> setter does not raise. The setter returns normally,
  whatever the engine would do with the value, and applies no default: the plant, the
  stored wake model with it, is as it was.
\<close>

theorem wake_model_setter_out_of_range_returns:
  "\<not> (0 \<le> model_type \<and> model_type < 4) \<Longrightarrow>
   fst (wake_model_setter env model_type p) = Returned \<and>
   snd (wake_model_setter env model_type p) = p"
  by (auto simp: wake_model_setter_def)

text \<open>
  The index \<open>-1\<close> is out of range; the setter returns on the sample plant, whose wake
  model stays 0.
\<close>

theorem wake_model_setter_out_of_range_returns_witness:
  "\<not> (0 \<le> (-1::int) \<and> (-1::int) < 4) \<and>
   fst (wake_model_setter sample_env (-1) sample_plant) = Returned \<and>
   snd (wake_model_setter sample_env (-1) sample_plant) = sample_plant \<and>
   wind_farm_wake_model (system_model (snd (wake_model_setter sample_env (-1) sample_plant))) = 0"
proof -
  have w: "wind_farm_wake_model (system_model sample_plant) = 0"
    by (simp add: sample_plant_def sample_model_def)
  show ?thesis
    using w wake_model_setter_out_of_range_returns [of "-1" sample_env sample_plant] by simp
qed

text \<open>
  C1 as the specification words it asks for a failure. At the index 4, the first one
  above the range, the setter returns.
\<close>

theorem wake_model_setter_index_four_returns:
  "fst (wake_model_setter sample_env 4 sample_plant) = Returned"
  by (simp add: wake_model_setter_def)

text \<open>
  C10: for every wake-model index outside the range 0 to 3, the \<^verbatim>\<open>wake_model\<close> setter
  leaves the plant as it was: the stored \<^verbatim>\<open>wind_farm_wake_model\<close> and everything else
  in the system model, the site, the configuration and the layout.
\<close>

theorem wake_model_setter_out_of_range_unchanged:
  "\<not> (0 \<le> model_type \<and> model_type < 4) \<Longrightarrow>
   snd (wake_model_setter env model_type p) = p"
  by (auto simp: wake_model_setter_def)

theorem wake_model_setter_out_of_range_unchanged_witness:
  "\<not> (0 \<le> (7::int) \<and> (7::int) < 4) \<and>
   snd (wake_model_setter sample_env 7 sample_plant) = sample_plant"
  using wake_model_setter_out_of_range_unchanged [of 7 sample_env sample_plant] by simp

section \<open>Properties of the turbine-rating setter\<close>

lemma py_max_Max: "xs \<noteq> [] \<Longrightarrow> py_max xs = Inr (Max (set xs))"
  by (cases xs) (simp_all add: Max.set_eq_fold [symmetric])

text \<open>Scaling a curve by a factor that is not negative scales its maximum.\<close>

lemma py_max_scale:
  assumes "py_max xs = Inr m" and "0 \<le> c"
  shows "py_max (map (\<lambda>i. i * c) xs) = Inr (m * c)"
proof -
  from assms(1) have ne: "xs \<noteq> []" by (cases xs) auto
  with assms(1) have m: "m = Max (set xs)" by (simp add: py_max_Max)
  have "mono (\<lambda>i::real. i * c)" using assms(2) by (simp add: mono_def mult_right_mono)
  then have "(\<lambda>i. i * c) (Max (set xs)) = Max ((\<lambda>i. i * c) ` set xs)"
    using ne by (intro mono_Max_commute) auto
  then show ?thesis using ne m by (simp add: py_max_Max)
qed

text \<open>
  With a positive rating on a curve whose maximum is positive, the setter returns; the
  second read of the rating, on the scaled curve, gives the new rating.
\<close>

lemma turb_rating_setter_result:
  assumes "turb_rating p = Inr m" and "0 < m" and "0 < rating_kw"
  shows "turb_rating_setter rating_kw p =
    (Returned, p\<lparr>system_model := (system_model p)
       \<lparr>wind_turbine_powercurve_powerout :=
          map (\<lambda>i. i * (rating_kw / m)) (wind_turbine_powercurve_powerout (system_model p)),
        system_capacity := rating_kw * real (length (wind_farm_xCoordinates (system_model p)))\<rparr>\<rparr>)"
proof -
  have "py_max (map (\<lambda>i. i * (rating_kw / m)) (wind_turbine_powercurve_powerout (system_model p)))
        = Inr (m * (rating_kw / m))"
    using assms by (intro py_max_scale) (simp_all add: turb_rating_def)
  then show ?thesis
    using assms by (simp add: turb_rating_setter_def turb_rating_def Let_def)
qed

lemma turb_rating_sample: "turb_rating sample_plant = Inr 250"
  by (simp add: turb_rating_def sample_plant_def sample_model_def)

text \<open>
  C3: for every positive \<open>rating_kw\<close>, the maximum \<open>m\<close> of the current power curve being
  positive, assigning \<^verbatim>\<open>turb_rating = rating_kw\<close> returns and the stored system capacity
  is \<open>rating_kw\<close> times the number of turbines, the length of the x-coordinate array,
  which the assignment does not change.
\<close>

theorem turb_rating_setter_system_capacity:
  assumes "turb_rating p = Inr m" and "0 < m" and "0 < rating_kw"
  shows "fst (turb_rating_setter rating_kw p) = Returned \<and>
         system_capacity_kw (snd (turb_rating_setter rating_kw p)) =
           rating_kw * of_int (num_turbines (snd (turb_rating_setter rating_kw p))) \<and>
         num_turbines (snd (turb_rating_setter rating_kw p)) = num_turbines p"
  using assms by (simp add: turb_rating_setter_result system_capacity_kw_def num_turbines_def)

text \<open>Three turbines rated 250 kW, set to 300 kW: the capacity is 900 kW.\<close>

theorem turb_rating_setter_system_capacity_witness:
  "turb_rating sample_plant = Inr 250 \<and> (0::real) < 250 \<and> (0::real) < 300 \<and>
   fst (turb_rating_setter 300 sample_plant) = Returned \<and>
   system_capacity_kw (snd (turb_rating_setter 300 sample_plant)) = 900 \<and>
   num_turbines (snd (turb_rating_setter 300 sample_plant)) = 3"
proof -
  have n: "num_turbines sample_plant = 3"
    by (simp add: num_turbines_def sample_plant_def sample_model_def)
  show ?thesis
    using turb_rating_sample n
      turb_rating_setter_system_capacity [OF turb_rating_sample, of 300] by simp
qed

text \<open>
  C4: for every positive \<open>rating_kw\<close>, the maximum \<open>m\<close> of the current power curve being
  positive, after assigning \<^verbatim>\<open>turb_rating = rating_kw\<close> the power-output array is the
  prior array with every element multiplied by the one scalar \<open>rating_kw / m\<close>.
\<close>

theorem turb_rating_setter_scales_powercurve:
  assumes "turb_rating p = Inr m" and "0 < m" and "0 < rating_kw"
  shows "wind_turbine_powercurve_powerout (system_model (snd (turb_rating_setter rating_kw p))) =
           map (\<lambda>v. v * (rating_kw / m)) (wind_turbine_powercurve_powerout (system_model p))"
  using assms by (simp add: turb_rating_setter_result)

text \<open>The curve 0, 125, 250 set to a rating of 500 kW is doubled.\<close>

theorem turb_rating_setter_scales_powercurve_witness:
  "turb_rating sample_plant = Inr 250 \<and> (0::real) < 250 \<and> (0::real) < 500 \<and>
   wind_turbine_powercurve_powerout (system_model (snd (turb_rating_setter 500 sample_plant))) =
     [0, 250, 500]"
proof -
  have c: "wind_turbine_powercurve_powerout (system_model sample_plant) = [0, 125, 250]"
    by (simp add: sample_plant_def sample_model_def)
  show ?thesis
    using turb_rating_sample c
      turb_rating_setter_scales_powercurve [OF turb_rating_sample, of 500] by simp
qed

text \<open>
  C9: for every positive \<open>rating_kw\<close>, assigning \<^verbatim>\<open>turb_rating = rating_kw\<close> changes
  nothing but the power-output array and the system capacity: the plant after the call is
  the plant before it with these two fields of the system model overwritten. The wind
  speeds of the power curve, the coordinate arrays, the rotor diameter and the hub height
  are among the fields left as they were.
\<close>

theorem turb_rating_setter_frame:
  assumes "0 < rating_kw"
  shows "snd (turb_rating_setter rating_kw p) =
           p\<lparr>system_model := (system_model p)
              \<lparr>wind_turbine_powercurve_powerout :=
                 wind_turbine_powercurve_powerout
                   (system_model (snd (turb_rating_setter rating_kw p))),
               system_capacity :=
                 system_capacity (system_model (snd (turb_rating_setter rating_kw p)))\<rparr>\<rparr>"
  by (simp add: turb_rating_setter_def Let_def split: sum.splits)

text \<open>The sample plant set to 300 kW: the curve is 0, 150, 300 and the capacity 900 kW.\<close>

theorem turb_rating_setter_frame_witness:
  "(0::real) < 300 \<and>
   snd (turb_rating_setter 300 sample_plant) =
     sample_plant\<lparr>system_model := sample_model
        \<lparr>wind_turbine_powercurve_powerout := [0, 150, 300], system_capacity := 900\<rparr>\<rparr>"
proof -
  have r: "turb_rating_setter 300 sample_plant =
     (Returned, sample_plant\<lparr>system_model := sample_model
        \<lparr>wind_turbine_powercurve_powerout := [0, 150, 300], system_capacity := 900\<rparr>\<rparr>)"
    by (simp add: turb_rating_setter_def turb_rating_def sample_plant_def sample_model_def)
  show ?thesis
    using turb_rating_setter_frame [of 300 sample_plant] by (simp add: r)
qed

section \<open>Properties of the turbine initialisation\<close>

lemma configure_turbine_unknown_name:
  assumes "cfg_turbine_name (config p) = Some name"
      and "\<not> check_turbine_library_for_turbine env name (cfg_turbine_group (config p))"
  shows "configure_turbine env p = (Raised (UnboundLocalError ''turbine_name''), p)"
  using assms by (simp add: configure_turbine_def)

text \<open>
  C2 asks that a turbine name the library does not know makes the initialisation raise
  the error whose message names the turbine. On the plant configured with the name
  \<open>no-such-turbine\<close>, which the library of the sample collaborators does not have, the
  initialisation goes past the lookup and stops at the read of the local variable that
  was never bound: what is raised is an UnboundLocalError, not the ValueError with the
  message built for it.
\<close>

theorem initialize_pysam_wind_turbine_unknown_name:
  "cfg_turbine_name (config unknown_turbine_plant) = Some ''no-such-turbine'' \<and>
   \<not> check_turbine_library_for_turbine sample_env ''no-such-turbine''
       (cfg_turbine_group (config unknown_turbine_plant)) \<and>
   initialize_pysam_wind_turbine sample_env unknown_turbine_plant =
     (Raised (UnboundLocalError ''turbine_name''), unknown_turbine_plant) \<and>
   fst (initialize_pysam_wind_turbine sample_env unknown_turbine_plant) \<noteq>
     Raised (ValueError (turbine_name_message ''no-such-turbine''))"
proof -
  have n: "cfg_turbine_name (config unknown_turbine_plant) = Some ''no-such-turbine''"
    by (simp add: unknown_turbine_plant_def sample_plant_def sample_config_def)
  have c: "\<not> check_turbine_library_for_turbine sample_env ''no-such-turbine''
       (cfg_turbine_group (config unknown_turbine_plant))"
    by (simp add: sample_env_def)
  have r: "cfg_rotor_diameter (config unknown_turbine_plant) = None"
    by (simp add: unknown_turbine_plant_def sample_plant_def sample_config_def)
  have "initialize_pysam_wind_turbine sample_env unknown_turbine_plant =
     (Raised (UnboundLocalError ''turbine_name''), unknown_turbine_plant)"
    by (simp add: initialize_pysam_wind_turbine_def turbine_setup_def and_then_def
        configure_rotor_diameter_def r configure_turbine_unknown_name [OF n c])
  with n c show ?thesis by simp
qed

lemma align_resource_height_outside:
  assumes "wind_turbine_hub_ht (system_model p) \<noteq> hub_height_meters (wind_resource (site p))"
      and "py_min (heights (data (wind_resource (site p)))) = Inr lo"
      and "py_max (heights (data (wind_resource (site p)))) = Inr hi"
      and "wind_turbine_hub_ht (system_model p) < lo \<or> hi < wind_turbine_hub_ht (system_model p)"
  shows "align_resource_height env p =
           redownload_wind_resource env (wind_turbine_hub_ht (system_model p)) p"
  using assms by (auto simp: align_resource_height_def Let_def)

lemma align_resource_height_inside:
  assumes "wind_turbine_hub_ht (system_model p) \<noteq> hub_height_meters (wind_resource (site p))"
      and "py_min (heights (data (wind_resource (site p)))) = Inr lo"
      and "py_max (heights (data (wind_resource (site p)))) = Inr hi"
      and "lo \<le> wind_turbine_hub_ht (system_model p)"
      and "wind_turbine_hub_ht (system_model p) \<le> hi"
  shows "align_resource_height env p =
           (Returned, update_hub_height (wind_turbine_hub_ht (system_model p)) p)"
  using assms by (simp add: align_resource_height_def Let_def)

lemma turbine_setup_unconfigured:
  assumes "cfg_rotor_diameter (config p) = None" and "cfg_turbine_name (config p) = None"
      and "cfg_hub_height (config p) = None"
  shows "turbine_setup env p = (Returned, p)"
  using assms
  by (simp add: turbine_setup_def and_then_def configure_rotor_diameter_def
      configure_turbine_def check_hub_height_def)

text \<open>
  C6: let the turbine part of \<^verbatim>\<open>initialize_pysam_wind_turbine\<close> (lines 227 to 265)
  return with the plant \<open>p1\<close>, let \<open>hub\<close> be the hub height of its turbine, different from
  the hub height of the resource data, and let \<open>lo\<close> and \<open>hi\<close> be the minimum and the
  maximum of the measured heights.
  \<^item> When \<open>hub\<close> is outside \<open>[lo, hi]\<close>, the site takes \<open>hub\<close> and the resource is requested
    again for the latitude, longitude and year of the resource in place. When the request
    gives the resource \<open>wr\<close>, the site takes \<open>wr\<close> and the system model takes its data;
    when the request raises, the initialisation raises the same.
  \<^item> When \<open>hub\<close> is inside \<open>[lo, hi]\<close>, only the two recorded hub heights, of the resource
    and of the site, are set to \<open>hub\<close>.

  In each case the plant so obtained is the one handed to the last step of the
  initialisation, the air-density adjustment.
\<close>

theorem initialize_pysam_wind_turbine_resource_height:
  assumes "turbine_setup env p = (Returned, p1)"
      and "hub = wind_turbine_hub_ht (system_model p1)"
      and "hub \<noteq> hub_height_meters (wind_resource (site p1))"
      and "py_min (heights (data (wind_resource (site p1)))) = Inr lo"
      and "py_max (heights (data (wind_resource (site p1)))) = Inr hi"
  shows "((hub < lo \<or> hi < hub) \<and>
          initialize_wind_resource env
            \<lparr>req_lat = latitude (wind_resource (site p1)),
             req_lon = longitude (wind_resource (site p1)),
             req_year = year (wind_resource (site p1))\<rparr>
            ((site p1)\<lparr>hub_height := hub\<rparr>) = Inr wr \<longrightarrow>
          initialize_pysam_wind_turbine env p =
            adjust_air_density env
              (p1\<lparr>site := (site p1)\<lparr>hub_height := hub, wind_resource := wr\<rparr>,
                  system_model := (system_model p1)\<lparr>wind_resource_data := data wr\<rparr>\<rparr>)) \<and>
         ((hub < lo \<or> hi < hub) \<and>
          initialize_wind_resource env
            \<lparr>req_lat = latitude (wind_resource (site p1)),
             req_lon = longitude (wind_resource (site p1)),
             req_year = year (wind_resource (site p1))\<rparr>
            ((site p1)\<lparr>hub_height := hub\<rparr>) = Inl e \<longrightarrow>
          initialize_pysam_wind_turbine env p =
            (Raised e, p1\<lparr>site := (site p1)\<lparr>hub_height := hub\<rparr>\<rparr>)) \<and>
         (lo \<le> hub \<and> hub \<le> hi \<longrightarrow>
          initialize_pysam_wind_turbine env p =
            adjust_air_density env
              (p1\<lparr>site := (site p1)
                 \<lparr>wind_resource := (wind_resource (site p1))\<lparr>hub_height_meters := hub\<rparr>,
                  hub_height := hub\<rparr>\<rparr>))"
proof (intro conjI impI)
  assume a: "(hub < lo \<or> hi < hub) \<and>
          initialize_wind_resource env
            \<lparr>req_lat = latitude (wind_resource (site p1)),
             req_lon = longitude (wind_resource (site p1)),
             req_year = year (wind_resource (site p1))\<rparr>
            ((site p1)\<lparr>hub_height := hub\<rparr>) = Inr wr"
  then have "align_resource_height env p1 = redownload_wind_resource env hub p1"
    using assms by (simp add: align_resource_height_outside)
  also have "\<dots> = (Returned,
      p1\<lparr>site := (site p1)\<lparr>hub_height := hub, wind_resource := wr\<rparr>,
         system_model := (system_model p1)\<lparr>wind_resource_data := data wr\<rparr>\<rparr>)"
    using a by (simp add: redownload_wind_resource_def Let_def)
  finally show "initialize_pysam_wind_turbine env p =
            adjust_air_density env
              (p1\<lparr>site := (site p1)\<lparr>hub_height := hub, wind_resource := wr\<rparr>,
                  system_model := (system_model p1)\<lparr>wind_resource_data := data wr\<rparr>\<rparr>)"
    using assms(1) by (simp add: initialize_pysam_wind_turbine_def and_then_def)
next
  assume a: "(hub < lo \<or> hi < hub) \<and>
          initialize_wind_resource env
            \<lparr>req_lat = latitude (wind_resource (site p1)),
             req_lon = longitude (wind_resource (site p1)),
             req_year = year (wind_resource (site p1))\<rparr>
            ((site p1)\<lparr>hub_height := hub\<rparr>) = Inl e"
  then have "align_resource_height env p1 = redownload_wind_resource env hub p1"
    using assms by (simp add: align_resource_height_outside)
  also have "\<dots> = (Raised e, p1\<lparr>site := (site p1)\<lparr>hub_height := hub\<rparr>\<rparr>)"
    using a by (simp add: redownload_wind_resource_def Let_def)
  finally show "initialize_pysam_wind_turbine env p =
            (Raised e, p1\<lparr>site := (site p1)\<lparr>hub_height := hub\<rparr>\<rparr>)"
    using assms(1) by (simp add: initialize_pysam_wind_turbine_def and_then_def)
next
  assume a: "lo \<le> hub \<and> hub \<le> hi"
  then have "align_resource_height env p1 = (Returned, update_hub_height hub p1)"
    using assms by (simp add: align_resource_height_inside)
  then show "initialize_pysam_wind_turbine env p =
            adjust_air_density env
              (p1\<lparr>site := (site p1)
                 \<lparr>wind_resource := (wind_resource (site p1))\<lparr>hub_height_meters := hub\<rparr>,
                  hub_height := hub\<rparr>\<rparr>)"
    using assms(1)
    by (simp add: initialize_pysam_wind_turbine_def and_then_def update_hub_height_def)
qed

text \<open>
  The 80 m turbine is above the measured heights: the resource is fetched again, or the
  failure of the download is raised. The 45 m turbine is between them: the two hub
  heights are set.
\<close>

theorem initialize_pysam_wind_turbine_resource_height_witness:
  "turbine_setup sample_env tall_plant = (Returned, tall_plant) \<and>
   (80::real) \<noteq> hub_height_meters (wind_resource (site tall_plant)) \<and>
   py_min (heights (data (wind_resource (site tall_plant)))) = Inr 40 \<and>
   py_max (heights (data (wind_resource (site tall_plant)))) = Inr 60 \<and>
   (60::real) < 80 \<and>
   initialize_pysam_wind_turbine sample_env tall_plant =
     (Returned,
      tall_plant\<lparr>site := (site tall_plant)\<lparr>hub_height := 80, wind_resource := fetched_resource\<rparr>,
                 system_model := (system_model tall_plant)
                   \<lparr>wind_resource_data := data fetched_resource\<rparr>\<rparr>) \<and>
   turbine_setup offline_env tall_plant = (Returned, tall_plant) \<and>
   initialize_pysam_wind_turbine offline_env tall_plant =
     (Raised (EngineError ''resource download failed''),
      tall_plant\<lparr>site := (site tall_plant)\<lparr>hub_height := 80\<rparr>\<rparr>) \<and>
   turbine_setup sample_env low_plant = (Returned, low_plant) \<and>
   (45::real) \<noteq> hub_height_meters (wind_resource (site low_plant)) \<and>
   (40::real) \<le> 45 \<and> (45::real) \<le> 60 \<and>
   initialize_pysam_wind_turbine sample_env low_plant =
     (Returned,
      low_plant\<lparr>site := (site low_plant)
        \<lparr>wind_resource := (wind_resource (site low_plant))\<lparr>hub_height_meters := 45\<rparr>,
         hub_height := 45\<rparr>\<rparr>)"
proof -
  have st: "turbine_setup sample_env tall_plant = (Returned, tall_plant)"
    by (rule turbine_setup_unconfigured)
       (simp_all add: tall_plant_def sample_plant_def sample_config_def)
  have so: "turbine_setup offline_env tall_plant = (Returned, tall_plant)"
    by (rule turbine_setup_unconfigured)
       (simp_all add: tall_plant_def sample_plant_def sample_config_def)
  have sl: "turbine_setup sample_env low_plant = (Returned, low_plant)"
    by (rule turbine_setup_unconfigured)
       (simp_all add: low_plant_def sample_plant_def sample_config_def)
  have ht: "80 = wind_turbine_hub_ht (system_model tall_plant)"
    by (simp add: tall_plant_def)
  have hl: "45 = wind_turbine_hub_ht (system_model low_plant)"
    by (simp add: low_plant_def)
  have rt: "site tall_plant = \<lparr>hub_height = 50, elev = None, wind_resource = sample_resource\<rparr>"
    by (simp add: tall_plant_def sample_plant_def)
  have rl: "site low_plant = \<lparr>hub_height = 50, elev = None, wind_resource = sample_resource\<rparr>"
    by (simp add: low_plant_def sample_plant_def)
  have nt: "80 \<noteq> hub_height_meters (wind_resource (site tall_plant))"
    by (simp add: rt sample_resource_def)
  have nl: "45 \<noteq> hub_height_meters (wind_resource (site low_plant))"
    by (simp add: rl sample_resource_def)
  have mint: "py_min (heights (data (wind_resource (site tall_plant)))) = Inr 40"
    by (simp add: rt sample_resource_def)
  have maxt: "py_max (heights (data (wind_resource (site tall_plant)))) = Inr 60"
    by (simp add: rt sample_resource_def)
  have minl: "py_min (heights (data (wind_resource (site low_plant)))) = Inr 40"
    by (simp add: rl sample_resource_def)
  have maxl: "py_max (heights (data (wind_resource (site low_plant)))) = Inr 60"
    by (simp add: rl sample_resource_def)
  have fetch: "initialize_wind_resource sample_env
       \<lparr>req_lat = latitude (wind_resource (site tall_plant)),
        req_lon = longitude (wind_resource (site tall_plant)),
        req_year = year (wind_resource (site tall_plant))\<rparr>
       ((site tall_plant)\<lparr>hub_height := 80\<rparr>) = Inr fetched_resource"
    by (simp add: sample_env_def rt sample_resource_def fetched_resource_def)
  have nofetch: "initialize_wind_resource offline_env
       \<lparr>req_lat = latitude (wind_resource (site tall_plant)),
        req_lon = longitude (wind_resource (site tall_plant)),
        req_year = year (wind_resource (site tall_plant))\<rparr>
       ((site tall_plant)\<lparr>hub_height := 80\<rparr>) = Inl (EngineError ''resource download failed'')"
    by (simp add: offline_env_def)
  have at: "cfg_adjust_air_density_for_elevation (config tall_plant) = False"
    by (simp add: tall_plant_def sample_plant_def sample_config_def)
  have al: "cfg_adjust_air_density_for_elevation (config low_plant) = False"
    by (simp add: low_plant_def sample_plant_def sample_config_def)
  show ?thesis
    using st so sl nt nl mint maxt fetch nofetch
      initialize_pysam_wind_turbine_resource_height [OF st ht nt mint maxt, of fetched_resource]
      initialize_pysam_wind_turbine_resource_height [OF so ht nt mint maxt, of _
        "EngineError ''resource download failed''"]
      initialize_pysam_wind_turbine_resource_height [OF sl hl nl minl maxl]
    by (simp add: adjust_air_density_def at al)
qed

section \<open>Properties of the coordinate and turbine-count assignments\<close>

text \<open>
  What \<^verbatim>\<open>modify_coordinates\<close> does away from the Floris branch: unequal lengths raise
  the ValueError and leave the plant as it was; equal lengths on the PySAM model, whose
  power curve has the maximum \<open>r\<close>, store both coordinate arrays and set the system
  capacity to \<open>r\<close> times the number of coordinates.
\<close>

lemma modify_coordinates_unequal_lengths:
  "length xcoords \<noteq> length ycoords \<Longrightarrow>
   modify_coordinates xcoords ycoords p =
     (Raised (ValueError [Txt ''WindPlant turbine coordinate arrays must have same length'']), p)"
  by (simp add: modify_coordinates_def)

lemma modify_coordinates_pysam:
  "length xcoords = length ycoords \<Longrightarrow> cfg_model_name (config p) = ''pysam'' \<Longrightarrow>
   turb_rating p = Inr r \<Longrightarrow>
   modify_coordinates xcoords ycoords p =
     (Returned, p\<lparr>system_model := (system_model p)
        \<lparr>wind_farm_xCoordinates := xcoords, wind_farm_yCoordinates := ycoords,
         system_capacity := r * real (length xcoords)\<rparr>\<rparr>)"
  by (simp add: modify_coordinates_def turb_rating_def)

text \<open>
  C5 asks that \<^verbatim>\<open>modify_coordinates\<close> succeeds and stores the coordinates whenever the
  two sequences have the same length. On the plant with the Floris model, two
  x-coordinates and two y-coordinates raise a TypeError, from the call of the attribute
  \<^verbatim>\<open>wind_farm_layout\<close>, and the coordinates stored are the three old ones.
\<close>

theorem modify_coordinates_floris_raises:
  "cfg_model_name (config floris_plant) = ''floris'' \<and>
   length [0, 100 :: real] = length [0, 0 :: real] \<and>
   modify_coordinates [0, 100] [0, 0] floris_plant =
     (Raised (TypeError ''wind_farm_layout''), floris_plant) \<and>
   wind_farm_xCoordinates (system_model (snd (modify_coordinates [0, 100] [0, 0] floris_plant))) =
     [0, 200, 400]"
  by (simp add: modify_coordinates_def floris_plant_def sample_plant_def sample_model_def)

text \<open>
  C7, as the code has it. With the layout mode \<open>custom\<close>, assigning
  \<^verbatim>\<open>num_turbines = n\<close> raises the ValueError, leaving the plant as it was, when \<open>n\<close>
  equals neither the length of the layout parameters' x-coordinate list nor the length of
  the system model's x-coordinate array. When \<open>n\<close> equals the second but not the first,
  the setter raises nothing of its own and hands \<open>n\<close> to the layout; when \<open>n\<close> equals the
  first, it hands \<open>n\<close> to the layout twice.
\<close>

theorem num_turbines_setter_custom:
  assumes "layout_mode (layout p) = ''custom''"
  shows "(n \<noteq> int (length (layout_x (layout p))) \<and>
          n \<noteq> int (length (wind_farm_xCoordinates (system_model p))) \<longrightarrow>
            num_turbines_setter env n p =
              (Raised (ValueError (num_turbines_message n
                 (int (length (wind_farm_xCoordinates (system_model p)))))), p)) \<and>
         (n \<noteq> int (length (layout_x (layout p))) \<and>
          n = int (length (wind_farm_xCoordinates (system_model p))) \<longrightarrow>
            num_turbines_setter env n p = set_num_turbines env n p) \<and>
         (n = int (length (layout_x (layout p))) \<longrightarrow>
            num_turbines_setter env n p =
              and_then (set_num_turbines env n) (set_num_turbines env n) p)"
  using assms by (simp add: num_turbines_setter_def)

text \<open>
  On the plant with two positions in the layout parameters and three in the system model:
  five turbines are refused, three and two are handed to the layout.
\<close>

theorem num_turbines_setter_custom_witness:
  "layout_mode (layout moved_plant) = ''custom'' \<and>
   (5::int) \<noteq> int (length (layout_x (layout moved_plant))) \<and>
   (5::int) \<noteq> int (length (wind_farm_xCoordinates (system_model moved_plant))) \<and>
   num_turbines_setter sample_env 5 moved_plant =
     (Raised (ValueError (num_turbines_message 5 3)), moved_plant) \<and>
   (3::int) \<noteq> int (length (layout_x (layout moved_plant))) \<and>
   (3::int) = int (length (wind_farm_xCoordinates (system_model moved_plant))) \<and>
   num_turbines_setter sample_env 3 moved_plant = (Returned, moved_plant) \<and>
   (2::int) = int (length (layout_x (layout moved_plant))) \<and>
   num_turbines_setter sample_env 2 moved_plant = (Returned, moved_plant)"
proof -
  have c: "layout_mode (layout moved_plant) = ''custom''"
    by (simp add: moved_plant_def)
  have lx: "int (length (layout_x (layout moved_plant))) = 2"
    by (simp add: moved_plant_def)
  have sx: "int (length (wind_farm_xCoordinates (system_model moved_plant))) = 3"
    by (simp add: moved_plant_def sample_plant_def sample_model_def)
  have e: "set_num_turbines sample_env = (\<lambda>n p. (Returned, p))"
    by (simp add: sample_env_def)
  show ?thesis
    using c lx sx
      num_turbines_setter_custom [OF c, of 5 sample_env]
      num_turbines_setter_custom [OF c, of 3 sample_env]
      num_turbines_setter_custom [OF c, of 2 sample_env]
    by (simp add: e and_then_def)
qed

text \<open>
  C7 as the specification words it refuses every count that differs from the length of
  the custom layout's x-coordinate list. On the plant above, three turbines differ from
  the two positions of the layout parameters, and the setter returns.
\<close>

theorem num_turbines_setter_system_count_accepted:
  "layout_mode (layout moved_plant) = ''custom'' \<and>
   (3::int) \<noteq> int (length (layout_x (layout moved_plant))) \<and>
   fst (num_turbines_setter sample_env 3 moved_plant) = Returned"
  by (simp add: num_turbines_setter_def moved_plant_def sample_plant_def sample_model_def
      sample_env_def)

section \<open>Properties of the power-curve recalculation\<close>

text \<open>
  C8, as the code has it: whatever exception \<open>e\<close> the engine's power-curve recalculation
  raises inside \<^verbatim>\<open>modify_powercurve\<close>, the method raises a RuntimeError whose message
  is formatted from the rotor diameter and the rating it was called with, both embedded
  in it, and from nothing else. The exception \<open>e\<close> is not discarded: it is the context of
  the RuntimeError.
\<close>

theorem modify_powercurve_engine_failure:
  assumes "fst (calculate_powercurve env (powercurve_arguments rating_kw p) (system_model p)) =
             Raised e"
  shows "fst (modify_powercurve env rotor_diam rating_kw p) =
           Raised (WithContext (RuntimeError (powercurve_message rotor_diam rating_kw)) e) \<and>
         Num rotor_diam \<in> set (powercurve_message rotor_diam rating_kw) \<and>
         Num rating_kw \<in> set (powercurve_message rotor_diam rating_kw)"
  using assms
  by (auto simp: modify_powercurve_def powercurve_message_def split: prod.splits outcome.splits)

text \<open>An engine that refuses a 5000 kW rating on the 40 m rotor in place.\<close>

theorem modify_powercurve_engine_failure_witness:
  "fst (calculate_powercurve failing_engine (powercurve_arguments 5000 sample_plant)
          (system_model sample_plant)) =
     Raised (EngineError ''rotor diameter too small for rating'') \<and>
   fst (modify_powercurve failing_engine 10 5000 sample_plant) =
     Raised (WithContext (RuntimeError (powercurve_message 10 5000))
               (EngineError ''rotor diameter too small for rating'')) \<and>
   Num 10 \<in> set (powercurve_message 10 5000) \<and>
   Num 5000 \<in> set (powercurve_message 10 5000)"
proof -
  have h: "fst (calculate_powercurve failing_engine (powercurve_arguments 5000 sample_plant)
          (system_model sample_plant)) = Raised (EngineError ''rotor diameter too small for rating'')"
    by (simp add: failing_engine_def)
  show ?thesis using h modify_powercurve_engine_failure [OF h, of 10] by simp
qed

text \<open>
  C8 as the specification words it has the engine's failure discarded, not propagated in
  the raised error. With the engine above, the error raised is not the bare RuntimeError:
  it carries the engine's exception.
\<close>

theorem modify_powercurve_keeps_engine_exception:
  "fst (modify_powercurve failing_engine 10 5000 sample_plant) =
     Raised (WithContext (RuntimeError (powercurve_message 10 5000))
               (EngineError ''rotor diameter too small for rating'')) \<and>
   fst (modify_powercurve failing_engine 10 5000 sample_plant) \<noteq>
     Raised (RuntimeError (powercurve_message 10 5000))"
  by (simp add: modify_powercurve_def failing_engine_def)

end
